theory Spec2Isabelle
  imports Main
begin

section \<open>The CloudFront VPC origin resource: data\<close>

text \<open>
  The model follows \<^verbatim>\<open>internal/service/cloudfront/vpc_origin.go\<close>. Pointers are options
  (\<open>None\<close> is \<^verbatim>\<open>nil\<close>), Go's \<^verbatim>\<open>error\<close> is \<open>error option\<close>, a panic is the left
  summand of a result, and every call to the remote API is appended to a log that the
  functions pass along.
\<close>

type_synonym duration = nat
  \<comment> \<open>\<^verbatim>\<open>time.Duration\<close>, in nanoseconds\<close>

type_synonym timestamp = nat

subsection \<open>Errors and panics\<close>

text \<open>
  The classes of errors a call of the remote API can fail with. \<^verbatim>\<open>EntityNotFound\<close> is the
  class the source tests for; the others are the classes the specification names: auth
  failure and malformed request (permanent), throttling and network blip (transient).
\<close>

datatype error_class =
    EntityNotFound
  | AccessDenied
  | MalformedRequest
  | Throttling
  | NetworkFailure

text \<open>
  A non-nil \<^verbatim>\<open>error\<close>: an error of the remote API client, or one of the three errors the
  poll engine makes itself.
\<close>

datatype error =
    ApiError error_class string
      \<comment> \<open>an error of the remote API client, with its class and message\<close>
  | UnexpectedDisappearance
  | UnexpectedState string "string list"
      \<comment> \<open>the observed status and the target set\<close>
  | TimeoutError string "string list"
      \<comment> \<open>the last observed status and the target set\<close>

datatype panic = NilPointerDereference

text \<open>
  \<^verbatim>\<open>errs.IsA[*awstypes.EntityNotFound](err)\<close>: whether the error, if any, is of the
  \<^verbatim>\<open>EntityNotFound\<close> type.
\<close>

fun IsA_EntityNotFound :: "error option \<Rightarrow> bool" where
  "IsA_EntityNotFound (Some (ApiError EntityNotFound _)) = True"
| "IsA_EntityNotFound _ = False"

subsection \<open>Objects of the remote API\<close>

record VpcOriginEndpointConfig =
  ec_Arn :: "string option"
  ec_HTTPPort :: "int option"
  ec_HTTPSPort :: "int option"
  ec_Name :: "string option"
  ec_OriginProtocolPolicy :: string
  ec_OriginSslProtocols :: "(string list \<times> int option) option"

record VpcOrigin =
  vo_Arn :: "string option"
  vo_CreatedTime :: "timestamp option"
  vo_Id :: "string option"
  vo_LastModifiedTime :: "timestamp option"
  vo_Status :: "string option"
  vo_VpcOriginEndpointConfig :: "VpcOriginEndpointConfig option"

text \<open>
  \<^verbatim>\<open>CreateVpcOriginOutput\<close>, \<^verbatim>\<open>GetVpcOriginOutput\<close> and \<^verbatim>\<open>UpdateVpcOriginOutput\<close>: the
  source reads their \<^verbatim>\<open>ETag\<close> and \<^verbatim>\<open>VpcOrigin\<close> fields only.
\<close>

record VpcOriginOutput =
  out_ETag :: "string option"
  out_VpcOrigin :: "VpcOrigin option"

type_synonym CreateVpcOriginOutput = VpcOriginOutput
type_synonym GetVpcOriginOutput = VpcOriginOutput
type_synonym UpdateVpcOriginOutput = VpcOriginOutput

type_synonym tag = "string \<times> string"

record Tags =
  Items :: "tag list"

record CreateVpcOriginInput =
  ci_Tags :: "Tags option"
  ci_VpcOriginEndpointConfig :: "VpcOriginEndpointConfig option"

record UpdateVpcOriginInput =
  ui_Id :: "string option"
  ui_IfMatch :: "string option"
  ui_VpcOriginEndpointConfig :: "VpcOriginEndpointConfig option"

record DeleteVpcOriginInput =
  di_Id :: "string option"
  di_IfMatch :: "string option"

text \<open>
  A value of type \<^verbatim>\<open>interface{}\<close>, by its dynamic type: the nil interface, a
  \<^verbatim>\<open>*cloudfront.GetVpcOriginOutput\<close> or a \<^verbatim>\<open>*awstypes.VpcOrigin\<close>.
\<close>

datatype interface =
    Nil
  | GetVpcOriginOutputPtr GetVpcOriginOutput
  | VpcOriginPtr VpcOrigin

text \<open>\<^verbatim>\<open>aws.ToString\<close>: the string a pointer points to, the empty string for nil.\<close>

definition ToString :: "string option \<Rightarrow> string" where
  "ToString p = (case p of None \<Rightarrow> '''' | Some s \<Rightarrow> s)"

subsection \<open>The remote system and the log of calls\<close>

datatype event =
    CreateVpcOriginCall CreateVpcOriginInput
  | UpdateVpcOriginCall UpdateVpcOriginInput
  | DeleteVpcOriginCall DeleteVpcOriginInput
  | GetVpcOriginCall string
  | WaitForStateCall "string list" "string list" duration
      \<comment> \<open>a call of \<^verbatim>\<open>WaitForStateContext\<close>: pending set, target set, timeout\<close>

text \<open>
  The client \<^verbatim>\<open>conn\<close>: the answer of the remote system to a request, given everything
  that happened before it. No assumption is made on the answers.
\<close>

record conn =
  CreateVpcOrigin :: "event list \<Rightarrow> CreateVpcOriginInput \<Rightarrow> CreateVpcOriginOutput option \<times> error option"
  GetVpcOrigin :: "event list \<Rightarrow> string \<Rightarrow> GetVpcOriginOutput option \<times> error option"
  UpdateVpcOrigin :: "event list \<Rightarrow> UpdateVpcOriginInput \<Rightarrow> UpdateVpcOriginOutput option \<times> error option"
  DeleteVpcOrigin :: "event list \<Rightarrow> DeleteVpcOriginInput \<Rightarrow> error option"

section \<open>The status prober\<close>

type_synonym refresh_result = "interface \<times> string \<times> error option"

type_synonym StateRefreshFunc = "event list \<Rightarrow> (panic + refresh_result) \<times> event list"

definition VPCOriginStatus :: "conn \<Rightarrow> string \<Rightarrow> StateRefreshFunc" where
  "VPCOriginStatus c ident log =
     (let input = ident;
          (output, err) = GetVpcOrigin c log input;
          log' = log @ [GetVpcOriginCall input]
      in if IsA_EntityNotFound err then (Inr (Nil, '''', None), log')
         else if err \<noteq> None then (Inr (Nil, '''', err), log')
         else (case output of
                 None \<Rightarrow> (Inr (Nil, '''', None), log')
               | Some out \<Rightarrow>
                   (case out_VpcOrigin out of
                      None \<Rightarrow> (Inl NilPointerDereference, log')
                    | Some vo \<Rightarrow>
                        (Inr (GetVpcOriginOutputPtr out, ToString (vo_Status vo), None), log'))))"

section \<open>The poll-until-state engine\<close>

record StateChangeConf =
  Pending :: "string list"
  Target :: "string list"
  Refresh :: StateRefreshFunc
  Timeout :: duration

text \<open>
  Modelled from the spec: the probe result, a tagged union (the engine is not among the
  sources).
\<close>

datatype probe_result =
    ObjectAndStatus interface string
  | NotFoundSignal
  | Error error

text \<open>
  Modelled from the spec: how the engine reads the triple a refresh function returns
  (the engine, \<^verbatim>\<open>retry.StateChangeConf.WaitForStateContext\<close>, is not among the sources).
  The probe result is a tagged union of an object with its status, the not-found signal
  and an error; a refresh that returns no object and no error reports that the
  identity does not exist.
\<close>

definition probe_result_of :: "refresh_result \<Rightarrow> probe_result" where
  "probe_result_of r =
     (case r of (obj, status, err) \<Rightarrow>
        (case err of
           Some e \<Rightarrow> Error e
         | None \<Rightarrow> if obj = Nil then NotFoundSignal else ObjectAndStatus obj status))"

text \<open>
  Modelled from the spec: the engine's classification of a failed read (the engine is
  not among the sources). Transient: a retryable condition, network blip or throttling.
  Permanent: auth failure, malformed request. The engine retries only transient read
  failures; every other class propagates immediately.
\<close>

fun transient :: "error \<Rightarrow> bool" where
  "transient (ApiError Throttling _) = True"
| "transient (ApiError NetworkFailure _) = True"
| "transient _ = False"

datatype verdict =
    Done interface "error option"
  | Continue

text \<open>
  Modelled from the spec: step 2 of the engine's algorithm (the engine is not among the
  sources). On the not-found signal: success by disappearance with a nil object when the
  target set is empty, an unexpected-disappearance error otherwise. On an error: returned
  immediately when non-retryable, else polling continues. On an object with a status: success
  with the object when the status is in the target set, polling continues when it is in the
  pending set, else an unexpected-state error together with the object.
\<close>

definition assess :: "string list \<Rightarrow> string list \<Rightarrow> probe_result \<Rightarrow> verdict" where
  "assess pending target p =
     (case p of
        NotFoundSignal \<Rightarrow>
          if target = [] then Done Nil None else Done Nil (Some UnexpectedDisappearance)
      | Error e \<Rightarrow> if transient e then Continue else Done Nil (Some e)
      | ObjectAndStatus obj status \<Rightarrow>
          if status \<in> set target then Done obj None
          else if status \<in> set pending then Continue
          else Done obj (Some (UnexpectedState status target)))"

text \<open>
  Modelled from the spec: the last observed object and status, kept for the timeout error
  (the engine is not among the sources). A failed read observes nothing new.
\<close>

definition observed :: "interface \<times> string \<Rightarrow> probe_result \<Rightarrow> interface \<times> string" where
  "observed seen p =
     (case p of
        ObjectAndStatus obj status \<Rightarrow> (obj, status)
      | NotFoundSignal \<Rightarrow> (Nil, '''')
      | Error e \<Rightarrow> seen)"

text \<open>
  Modelled from the spec: the engine's loop (the engine is not among the sources). The
  first argument is the number of repeats the deadline still allows. Each round invokes the
  prober once; before a repeat the deadline is checked, and when it has passed the result is
  the timeout error with the last observed object and status.
\<close>

fun poll :: "StateChangeConf \<Rightarrow> nat \<Rightarrow> interface \<times> string \<Rightarrow> event list
    \<Rightarrow> (panic + interface \<times> error option) \<times> event list" where
  "poll cf 0 seen log =
     (case Refresh cf log of
        (Inl p, log') \<Rightarrow> (Inl p, log')
      | (Inr r, log') \<Rightarrow>
          (case assess (Pending cf) (Target cf) (probe_result_of r) of
             Done obj err \<Rightarrow> (Inr (obj, err), log')
           | Continue \<Rightarrow>
               (let seen' = observed seen (probe_result_of r)
                in (Inr (fst seen', Some (TimeoutError (snd seen') (Target cf))), log'))))"
| "poll cf (Suc k) seen log =
     (case Refresh cf log of
        (Inl p, log') \<Rightarrow> (Inl p, log')
      | (Inr r, log') \<Rightarrow>
          (case assess (Pending cf) (Target cf) (probe_result_of r) of
             Done obj err \<Rightarrow> (Inr (obj, err), log')
           | Continue \<Rightarrow> poll cf k (observed seen (probe_result_of r)) log'))"

text \<open>
  Modelled from the spec: the number of repeats before the deadline (the engine is not
  among the sources). The first probe is at time 0 and the probes are \<open>d\<close> apart, \<open>d\<close> the
  engine's fixed delay between polls; a repeat at time \<open>k * d\<close> takes place when
  \<open>k * d < timeout\<close>. The spec requires a minimum spacing, so \<open>d = 0\<close> allows no repeat.
\<close>

definition repeats :: "duration \<Rightarrow> duration \<Rightarrow> nat" where
  "repeats timeout d = (if d = 0 then 0 else (timeout - 1) div d)"

text \<open>
  Modelled from the spec: \<^verbatim>\<open>WaitUntil\<close>, in the source
  \<^verbatim>\<open>stateConf.WaitForStateContext(ctx)\<close> (the engine is not among the sources). The external
  cancellation signal is not part of the model: the context is never cancelled.
\<close>

definition WaitForStateContext :: "duration \<Rightarrow> StateChangeConf \<Rightarrow> event list
    \<Rightarrow> (panic + interface \<times> error option) \<times> event list" where
  "WaitForStateContext d cf log = poll cf (repeats (Timeout cf) d) (Nil, '''') log"

section \<open>The waits of the resource\<close>

definition deployedConf :: "conn \<Rightarrow> string \<Rightarrow> duration \<Rightarrow> StateChangeConf" where
  "deployedConf c ident timeout =
     \<lparr>Pending = [''Deploying''], Target = [''Deployed''],
      Refresh = VPCOriginStatus c ident, Timeout = timeout\<rparr>"

definition deletedConf :: "conn \<Rightarrow> string \<Rightarrow> duration \<Rightarrow> StateChangeConf" where
  "deletedConf c ident timeout =
     \<lparr>Pending = [''Deploying''], Target = [],
      Refresh = VPCOriginStatus c ident, Timeout = timeout\<rparr>"

text \<open>
  The type assertion \<^verbatim>\<open>outputRaw.(*awstypes.VpcOrigin)\<close> and the two returns after it.
\<close>

definition assertVpcOrigin :: "interface \<times> error option \<Rightarrow> VpcOrigin option \<times> error option" where
  "assertVpcOrigin r =
     (case r of (outputRaw, err) \<Rightarrow>
        (case outputRaw of
           VpcOriginPtr output \<Rightarrow> (Some output, err)
         | _ \<Rightarrow> (None, err)))"

definition waitVPCOriginDeployed :: "duration \<Rightarrow> conn \<Rightarrow> string \<Rightarrow> duration \<Rightarrow> event list
    \<Rightarrow> (panic + VpcOrigin option \<times> error option) \<times> event list" where
  "waitVPCOriginDeployed d c ident timeout log =
     (let stateConf = deployedConf c ident timeout;
          log = log @ [WaitForStateCall (Pending stateConf) (Target stateConf) (Timeout stateConf)]
      in case WaitForStateContext d stateConf log of
           (Inl p, log) \<Rightarrow> (Inl p, log)
         | (Inr r, log) \<Rightarrow> (Inr (assertVpcOrigin r), log))"

definition waitVPCOriginDeleted :: "duration \<Rightarrow> conn \<Rightarrow> string \<Rightarrow> duration \<Rightarrow> event list
    \<Rightarrow> (panic + VpcOrigin option \<times> error option) \<times> event list" where
  "waitVPCOriginDeleted d c ident timeout log =
     (let stateConf = deletedConf c ident timeout;
          log = log @ [WaitForStateCall (Pending stateConf) (Target stateConf) (Timeout stateConf)]
      in case WaitForStateContext d stateConf log of
           (Inl p, log) \<Rightarrow> (Inl p, log)
         | (Inr r, log) \<Rightarrow> (Inr (assertVpcOrigin r), log))"

section \<open>The resource and its managed state\<close>

subsection \<open>Attribute values of the framework\<close>

text \<open>
  An attribute of the plan or the state is null, unknown (computed, not yet known) or
  known. \<^verbatim>\<open>ValueString\<close> of a null or unknown string is the empty string;
  \<^verbatim>\<open>StringToFramework\<close> and \<^verbatim>\<open>TimeToFramework\<close> turn a nil pointer into null.
\<close>

datatype 'a attr = Null | Unknown | Known 'a

definition ValueString :: "string attr \<Rightarrow> string" where
  "ValueString a = (case a of Known s \<Rightarrow> s | _ \<Rightarrow> '''')"

definition StringToFramework :: "string option \<Rightarrow> string attr" where
  "StringToFramework p = (case p of None \<Rightarrow> Null | Some s \<Rightarrow> Known s)"

definition TimeToFramework :: "timestamp option \<Rightarrow> timestamp attr" where
  "TimeToFramework p = (case p of None \<Rightarrow> Null | Some t \<Rightarrow> Known t)"

record originSSLProtocolsModel =
  ssl_Items :: "string list attr"
  ssl_Quantity :: "int attr"

record vpcOriginEndpointConfigModel =
  ecm_Arn :: "string attr"
  ecm_HTTPPort :: "int attr"
  ecm_HTTPSPort :: "int attr"
  ecm_Name :: "string attr"
  ecm_OriginProtocolPolicy :: "string attr"
  ecm_OriginSslProtocols :: "originSSLProtocolsModel list attr"

record timeouts =
  t_Create :: "duration option"
  t_Update :: "duration option"
  t_Delete :: "duration option"

record vpcOriginModel =
  m_ARN :: "string attr"
  m_CreatedTime :: "timestamp attr"
  m_Id :: "string attr"
  m_ETag :: "string attr"
  m_LastModifiedTime :: "timestamp attr"
  m_Status :: "string attr"
  m_VpcOriginEndpointConfig :: "vpcOriginEndpointConfigModel attr"
  m_Tags :: "tag list attr"
  m_Timeouts :: timeouts

subsection \<open>Diagnostics, requests and responses\<close>

datatype action =
    ErrActionWaitingForCreation
  | ErrActionWaitingForUpdate
  | ErrActionWaitingForDeletion

text \<open>
  A diagnostic, by what the source builds it from rather than by its rendered text.
\<close>

datatype diagnostic =
    WaitingError action "string attr" error
      \<comment> \<open>\<^verbatim>\<open>AddError(create.ProblemStandardMessage(.., action, .., id, err), err.Error())\<close>\<close>
  | ReadingError string error
      \<comment> \<open>\<^verbatim>\<open>AddError(fmt.Sprintf("reading CloudFront VPC Origin (%s)", id), err.Error())\<close>\<close>
  | EmptyResponseError string string
      \<comment> \<open>\<^verbatim>\<open>AddError(fmt.Sprintf("Updating ... (%s): empty response", id), err.Error())\<close>\<close>
  | ResourceNotFoundWarning error
      \<comment> \<open>\<^verbatim>\<open>fwdiag.NewResourceNotFoundWarningDiagnostic(err)\<close>\<close>
  | FrameworkDiagnostic bool string
      \<comment> \<open>a diagnostic of the framework (decoding, expanding, flattening); the flag says
          whether it is an error\<close>

fun IsError :: "diagnostic \<Rightarrow> bool" where
  "IsError (WaitingError _ _ _) = True"
| "IsError (ReadingError _ _) = True"
| "IsError (EmptyResponseError _ _) = True"
| "IsError (ResourceNotFoundWarning _) = False"
| "IsError (FrameworkDiagnostic b _) = b"

definition HasError :: "diagnostic list \<Rightarrow> bool" where
  "HasError ds = list_ex IsError ds"

text \<open>
  A request holds what \<^verbatim>\<open>request.Plan.Get\<close> and \<^verbatim>\<open>request.State.Get\<close> give: diagnostics
  and the decoded model. A response holds the diagnostics and the managed state, \<open>None\<close>
  when the resource is not (or no longer) in it. \<^verbatim>\<open>response.State.Set\<close> of a decoded
  model gives no diagnostics.
\<close>

record request =
  req_Plan :: "diagnostic list \<times> vpcOriginModel"
  req_State :: "diagnostic list \<times> vpcOriginModel"

record response =
  Diagnostics :: "diagnostic list"
  State :: "vpcOriginModel option"

definition Append :: "response \<Rightarrow> diagnostic list \<Rightarrow> response" where
  "Append response ds = response\<lparr>Diagnostics := Diagnostics response @ ds\<rparr>"

definition AddError :: "response \<Rightarrow> diagnostic \<Rightarrow> response" where
  "AddError response e = response\<lparr>Diagnostics := Diagnostics response @ [e]\<rparr>"

text \<open>\<^verbatim>\<open>err.Error()\<close>: a method call on a nil interface value panics.\<close>

definition Error_text :: "error option \<Rightarrow> panic + string" where
  "Error_text err =
     (case err of
        None \<Rightarrow> Inl NilPointerDereference
      | Some e \<Rightarrow>
          Inr (case e of
                 ApiError _ msg \<Rightarrow> msg
               | UnexpectedDisappearance \<Rightarrow> ''unexpected disappearance''
               | UnexpectedState s _ \<Rightarrow> ''unexpected state '' @ s
               | TimeoutError s _ \<Rightarrow> ''timeout, last state '' @ s))"

subsection \<open>Collaborators\<close>

text \<open>
  The resource \<^verbatim>\<open>r\<close>: its client (\<^verbatim>\<open>r.Meta().CloudFrontClient(ctx)\<close>) and its timeout
  methods, which are not among the sources and are taken as they come.
\<close>

record cloudfrontVPCOriginResource =
  CloudFrontClient :: conn
  CreateTimeout :: "timeouts \<Rightarrow> duration"
  UpdateTimeout :: "timeouts \<Rightarrow> duration"
  DeleteTimeout :: "timeouts \<Rightarrow> duration"

text \<open>
  The field mapping of \<^verbatim>\<open>fwflex\<close>, not among the sources and taken as it comes:
  \<^verbatim>\<open>Expand\<close> fills an input from a model, \<^verbatim>\<open>Flatten\<close> fills a model from an object.
\<close>

record fwflex =
  Expand_create :: "vpcOriginModel \<Rightarrow> CreateVpcOriginInput \<Rightarrow> diagnostic list \<times> CreateVpcOriginInput"
  Expand_update :: "vpcOriginModel \<Rightarrow> UpdateVpcOriginInput \<Rightarrow> diagnostic list \<times> UpdateVpcOriginInput"
  Flatten :: "VpcOrigin option \<Rightarrow> vpcOriginModel \<Rightarrow> diagnostic list \<times> vpcOriginModel"

record ctx =
  getTagsIn :: "tag list"

text \<open>\<^verbatim>\<open>input.Tags.Items = tags\<close>, through the pointer \<^verbatim>\<open>input.Tags\<close>.\<close>

definition setTagsItems :: "CreateVpcOriginInput \<Rightarrow> tag list \<Rightarrow> panic + CreateVpcOriginInput" where
  "setTagsItems input tags =
     (case ci_Tags input of
        None \<Rightarrow> Inl NilPointerDereference
      | Some t \<Rightarrow> Inr (input\<lparr>ci_Tags := Some (t\<lparr>Items := tags\<rparr>)\<rparr>))"


section \<open>The lifecycle operations\<close>

definition Create :: "cloudfrontVPCOriginResource \<Rightarrow> fwflex \<Rightarrow> duration \<Rightarrow> ctx
    \<Rightarrow> request \<Rightarrow> response \<Rightarrow> event list \<Rightarrow> (panic + response) \<times> event list" where
  "Create r fw d ctx request response log =
     (let (diags, data) = req_Plan request;
          response = Append response diags
      in if HasError (Diagnostics response) then (Inr response, log)
         else
          (let conn = CloudFrontClient r;
               (diags, input) =
                  Expand_create fw data \<lparr>ci_Tags = None, ci_VpcOriginEndpointConfig = None\<rparr>;
               response = Append response diags;
               tags = getTagsIn ctx
           in case (if length tags > 0 then setTagsItems input tags else Inr input) of
                Inl p \<Rightarrow> (Inl p, log)
              | Inr input \<Rightarrow>
                  (let (output, err) = CreateVpcOrigin conn log input;
                       log = log @ [CreateVpcOriginCall input];
                       createTimeout = CreateTimeout r (m_Timeouts data)
                   in case waitVPCOriginDeployed d conn (ValueString (m_Id data)) createTimeout log of
                        (Inl p, log) \<Rightarrow> (Inl p, log)
                      | (Inr (_, err), log) \<Rightarrow>
                          (case err of
                             Some e \<Rightarrow>
                               (Inr (AddError response
                                       (WaitingError ErrActionWaitingForCreation (m_Id data) e)), log)
                           | None \<Rightarrow>
                               (case output of
                                  None \<Rightarrow> (Inl NilPointerDereference, log)
                                | Some out \<Rightarrow>
                                    (case out_VpcOrigin out of
                                       None \<Rightarrow> (Inl NilPointerDereference, log)
                                     | Some vo \<Rightarrow>
                                         (let data = data
                                                \<lparr>m_ARN := StringToFramework (vo_Arn vo),
                                                 m_CreatedTime := TimeToFramework (vo_CreatedTime vo),
                                                 m_Id := StringToFramework (vo_Id vo),
                                                 m_LastModifiedTime := TimeToFramework (vo_LastModifiedTime vo),
                                                 m_Status := StringToFramework (vo_Status vo),
                                                 m_ETag := StringToFramework (out_ETag out)\<rparr>
                                          in (Inr (response\<lparr>State := Some data\<rparr>), log))))))))"


definition Update :: "cloudfrontVPCOriginResource \<Rightarrow> fwflex \<Rightarrow> duration \<Rightarrow> ctx
    \<Rightarrow> request \<Rightarrow> response \<Rightarrow> event list \<Rightarrow> (panic + response) \<times> event list" where
  "Update r fw d ctx request response log =
     (let (diags, old) = req_State request;
          response = Append response diags
      in if HasError (Diagnostics response) then (Inr response, log)
         else
          (let (diags, new) = req_Plan request;
               response = Append response diags
           in if HasError (Diagnostics response) then (Inr response, log)
              else
               (let conn = CloudFrontClient r;
                    input = \<lparr>ui_Id = Some (ValueString (m_Id new)),
                             ui_IfMatch = Some (ValueString (m_ETag old)),
                             ui_VpcOriginEndpointConfig = None\<rparr>;
                    (diags, input) = Expand_update fw new input;
                    response = Append response diags
                in if HasError (Diagnostics response) then (Inr response, log)
                   else
                    (let (output, err) = UpdateVpcOrigin conn log input;
                         log = log @ [UpdateVpcOriginCall input];
                         updateTimeout = UpdateTimeout r (m_Timeouts old)
                     in case waitVPCOriginDeployed d conn (ValueString (m_Id old)) updateTimeout log of
                          (Inl p, log) \<Rightarrow> (Inl p, log)
                        | (Inr (_, err), log) \<Rightarrow>
                            (case err of
                               Some e \<Rightarrow>
                                 (Inr (AddError response
                                         (WaitingError ErrActionWaitingForUpdate (m_Id old) e)), log)
                             | None \<Rightarrow>
                                 (case output of
                                    None \<Rightarrow>
                                      (case Error_text err of
                                         Inl p \<Rightarrow> (Inl p, log)
                                       | Inr detail \<Rightarrow>
                                           (Inr (AddError response
                                                   (EmptyResponseError (ValueString (m_Id old)) detail)), log))
                                  | Some out \<Rightarrow>
                                      (case out_VpcOrigin out of
                                         None \<Rightarrow> (Inl NilPointerDereference, log)
                                       | Some vo \<Rightarrow>
                                           (let new = new
                                                  \<lparr>m_CreatedTime := TimeToFramework (vo_CreatedTime vo),
                                                   m_LastModifiedTime := TimeToFramework (vo_LastModifiedTime vo),
                                                   m_Status := StringToFramework (vo_Status vo),
                                                   m_ETag := StringToFramework (out_ETag out)\<rparr>
                                            in (Inr (response\<lparr>State := Some new\<rparr>), log)))))))))"

definition Delete :: "cloudfrontVPCOriginResource \<Rightarrow> duration \<Rightarrow> ctx
    \<Rightarrow> request \<Rightarrow> response \<Rightarrow> event list \<Rightarrow> (panic + response) \<times> event list" where
  "Delete r d ctx request response log =
     (let (diags, data) = req_State request;
          response = Append response diags
      in if HasError (Diagnostics response) then (Inr response, log)
         else
          (let conn = CloudFrontClient r;
               input = \<lparr>di_Id = Some (ValueString (m_Id data)),
                        di_IfMatch = Some (ValueString (m_ETag data))\<rparr>;
               err = DeleteVpcOrigin conn log input;
               log = log @ [DeleteVpcOriginCall input];
               deleteTimeout = DeleteTimeout r (m_Timeouts data)
           in case waitVPCOriginDeleted d conn (ValueString (m_Id data)) deleteTimeout log of
                (Inl p, log) \<Rightarrow> (Inl p, log)
              | (Inr (_, err), log) \<Rightarrow>
                  (case err of
                     Some e \<Rightarrow>
                       (Inr (AddError response
                               (WaitingError ErrActionWaitingForDeletion (m_Id data) e)), log)
                   | None \<Rightarrow> (Inr response, log))))"

section \<open>Concrete runs\<close>

text \<open>
  A remote system that follows a script: every mutating call gets the same answer, the
  reads are answered from a list in order, and once the list is used up the identity
  does not exist.
\<close>

fun is_probe :: "event \<Rightarrow> bool" where
  "is_probe (GetVpcOriginCall _) = True"
| "is_probe _ = False"

definition answer :: "'a list \<Rightarrow> 'a \<Rightarrow> nat \<Rightarrow> 'a" where
  "answer script dflt n = (case drop n script of [] \<Rightarrow> dflt | a # _ \<Rightarrow> a)"

definition scripted :: "VpcOriginOutput option \<times> error option
    \<Rightarrow> (GetVpcOriginOutput option \<times> error option) list \<Rightarrow> conn" where
  "scripted mutation reads =
     \<lparr>CreateVpcOrigin = (\<lambda>log input. mutation),
      GetVpcOrigin = (\<lambda>log ident.
         answer reads (None, Some (ApiError EntityNotFound ''not found''))
           (length (filter is_probe log))),
      UpdateVpcOrigin = (\<lambda>log input. mutation),
      DeleteVpcOrigin = (\<lambda>log input. snd mutation)\<rparr>"

definition origin :: "string \<Rightarrow> string \<Rightarrow> VpcOriginOutput" where
  "origin status etag =
     \<lparr>out_ETag = Some etag,
      out_VpcOrigin = Some \<lparr>vo_Arn = Some ''arn:aws:cloudfront::1:vpcorigin/vo_1'',
        vo_CreatedTime = Some 100, vo_Id = Some ''vo_1'', vo_LastModifiedTime = Some 200,
        vo_Status = Some status, vo_VpcOriginEndpointConfig = None\<rparr>\<rparr>"

text \<open>
  A remote system that creates the origin \<^verbatim>\<open>vo_1\<close> and knows no other identity.
\<close>

definition remote_vo_1 :: conn where
  "remote_vo_1 =
     \<lparr>CreateVpcOrigin = (\<lambda>log input. (Some (origin ''Deploying'' ''E1''), None)),
      GetVpcOrigin = (\<lambda>log ident.
         if ident = ''vo_1'' then (Some (origin ''Deployed'' ''E2''), None)
         else (None, Some (ApiError EntityNotFound ''no such origin''))),
      UpdateVpcOrigin = (\<lambda>log input. (Some (origin ''Deploying'' ''E3''), None)),
      DeleteVpcOrigin = (\<lambda>log input. None)\<rparr>"

definition example_plan :: vpcOriginModel where
  "example_plan =
     \<lparr>m_ARN = Unknown, m_CreatedTime = Unknown, m_Id = Unknown, m_ETag = Unknown,
      m_LastModifiedTime = Unknown, m_Status = Unknown,
      m_VpcOriginEndpointConfig = Known
        \<lparr>ecm_Arn = Known ''arn:aws:elasticloadbalancing:lb'', ecm_HTTPPort = Known 80,
         ecm_HTTPSPort = Known 443, ecm_Name = Known ''origin'',
         ecm_OriginProtocolPolicy = Known ''https-only'',
         ecm_OriginSslProtocols =
           Known [\<lparr>ssl_Items = Known [''TLSv1.2''], ssl_Quantity = Known 1\<rparr>]\<rparr>,
      m_Tags = Null,
      m_Timeouts = \<lparr>t_Create = Some 3, t_Update = Some 3, t_Delete = Some 3\<rparr>\<rparr>"

definition example_state :: vpcOriginModel where
  "example_state =
     example_plan
       \<lparr>m_ARN := Known ''arn:aws:cloudfront::1:vpcorigin/vo_1'', m_CreatedTime := Known 100,
        m_Id := Known ''vo_1'', m_ETag := Known ''E1'', m_LastModifiedTime := Known 200,
        m_Status := Known ''Deployed''\<rparr>"

definition example_flex :: fwflex where
  "example_flex =
     \<lparr>Expand_create = (\<lambda>data input. ([], input)),
      Expand_update = (\<lambda>data input. ([], input)),
      Flatten = (\<lambda>vo data. ([], data))\<rparr>"

definition example_resource :: "conn \<Rightarrow> cloudfrontVPCOriginResource" where
  "example_resource c =
     \<lparr>CloudFrontClient = c,
      CreateTimeout = (\<lambda>ts. case t_Create ts of None \<Rightarrow> 900000000000 | Some t \<Rightarrow> t),
      UpdateTimeout = (\<lambda>ts. case t_Update ts of None \<Rightarrow> 900000000000 | Some t \<Rightarrow> t),
      DeleteTimeout = (\<lambda>ts. case t_Delete ts of None \<Rightarrow> 900000000000 | Some t \<Rightarrow> t)\<rparr>"

text \<open>
  A create request (the plan, with every computed attribute unknown) and a request on the
  existing resource \<^verbatim>\<open>vo_1\<close> (its state, and a plan that keeps its identity).
\<close>

definition create_request :: request where
  "create_request = \<lparr>req_Plan = ([], example_plan), req_State = ([], example_plan)\<rparr>"

definition example_request :: request where
  "example_request =
     \<lparr>req_Plan = ([], example_state\<lparr>m_Status := Unknown, m_ETag := Unknown\<rparr>),
      req_State = ([], example_state)\<rparr>"

definition no_tags :: ctx where
  "no_tags = \<lparr>getTagsIn = []\<rparr>"

definition empty_response :: response where
  "empty_response = \<lparr>Diagnostics = [], State = None\<rparr>"

definition prior_response :: response where
  "prior_response = \<lparr>Diagnostics = [], State = Some example_state\<rparr>"

section \<open>The prober and the engine, step by step\<close>

lemma VPCOriginStatus_NotFound:
  "GetVpcOrigin c log ident = (output, Some (ApiError EntityNotFound msg)) \<Longrightarrow>
   VPCOriginStatus c ident log = (Inr (Nil, '''', None), log @ [GetVpcOriginCall ident])"
  by (simp add: VPCOriginStatus_def)

lemma VPCOriginStatus_error:
  "GetVpcOrigin c log ident = (output, Some e) \<Longrightarrow> \<not> IsA_EntityNotFound (Some e) \<Longrightarrow>
   VPCOriginStatus c ident log = (Inr (Nil, '''', Some e), log @ [GetVpcOriginCall ident])"
  by (simp add: VPCOriginStatus_def)

lemma VPCOriginStatus_object:
  "GetVpcOrigin c log ident = (Some out, None) \<Longrightarrow> out_VpcOrigin out = Some vo \<Longrightarrow>
   VPCOriginStatus c ident log =
     (Inr (GetVpcOriginOutputPtr out, ToString (vo_Status vo), None),
      log @ [GetVpcOriginCall ident])"
  by (simp add: VPCOriginStatus_def)

lemma VPCOriginStatus_log:
  "snd (VPCOriginStatus c ident log) = log @ [GetVpcOriginCall ident]"
  by (simp add: VPCOriginStatus_def Let_def split: prod.splits option.splits)

lemma poll_Done:
  "Refresh cf log = (Inr r, log') \<Longrightarrow>
   assess (Pending cf) (Target cf) (probe_result_of r) = Done obj err \<Longrightarrow>
   poll cf k seen log = (Inr (obj, err), log')"
  by (cases k) simp_all

lemma poll_Continue_Suc:
  "Refresh cf log = (Inr r, log') \<Longrightarrow>
   assess (Pending cf) (Target cf) (probe_result_of r) = Continue \<Longrightarrow>
   poll cf (Suc k) seen log = poll cf k (observed seen (probe_result_of r)) log'"
  by simp

lemma poll_Continue_0:
  "Refresh cf log = (Inr r, log') \<Longrightarrow>
   assess (Pending cf) (Target cf) (probe_result_of r) = Continue \<Longrightarrow>
   poll cf 0 seen log =
     (Inr (fst (observed seen (probe_result_of r)),
           Some (TimeoutError (snd (observed seen (probe_result_of r))) (Target cf))), log')"
  by (simp add: Let_def)

text \<open>
  Every wait issues at least one probe and at most one more than the deadline allows
  repeats, all of them reads of the identity the wait was given.
\<close>

lemma poll_log:
  "Refresh cf = VPCOriginStatus c ident \<Longrightarrow>
   \<exists>n\<le>k. snd (poll cf k seen log) = log @ replicate (Suc n) (GetVpcOriginCall ident)"
proof (induction k arbitrary: seen log)
  case 0
  obtain res where r: "VPCOriginStatus c ident log = (res, log @ [GetVpcOriginCall ident])"
    using VPCOriginStatus_log [of c ident log] by (cases "VPCOriginStatus c ident log") simp
  show ?case
    using 0 r by (simp add: Let_def split: sum.splits verdict.splits)
next
  case (Suc k)
  obtain res where r: "VPCOriginStatus c ident log = (res, log @ [GetVpcOriginCall ident])"
    using VPCOriginStatus_log [of c ident log] by (cases "VPCOriginStatus c ident log") simp
  show ?case
  proof (cases res)
    case (Inl p)
    then show ?thesis using Suc.prems r by (intro exI [of _ 0]) simp
  next
    case (Inr x)
    show ?thesis
    proof (cases "assess (Pending cf) (Target cf) (probe_result_of x)")
      case (Done obj err)
      then show ?thesis using Suc.prems r Inr by (intro exI [of _ 0]) simp
    next
      case Continue
      from Suc.IH [OF Suc.prems, of "observed seen (probe_result_of x)"
          "log @ [GetVpcOriginCall ident]"]
      obtain n where n: "n \<le> k"
        "snd (poll cf k (observed seen (probe_result_of x)) (log @ [GetVpcOriginCall ident])) =
           (log @ [GetVpcOriginCall ident]) @ replicate (Suc n) (GetVpcOriginCall ident)"
        by blast
      show ?thesis
        using Suc.prems r Inr Continue n
        by (intro exI [of _ "Suc n"]) (simp add: replicate_app_Cons_same)
    qed
  qed
qed

lemma snd_wait_result:
  "snd (case x of (Inl p, l) \<Rightarrow> (Inl p, l) | (Inr r, l) \<Rightarrow> (Inr (f r), l)) = snd x"
  by (cases x; cases "fst x") auto

lemma waitVPCOriginDeployed_log:
  "\<exists>n. snd (waitVPCOriginDeployed d c ident timeout log) =
     log @ WaitForStateCall [''Deploying''] [''Deployed''] timeout
       # replicate (Suc n) (GetVpcOriginCall ident)"
proof -
  let ?cf = "deployedConf c ident timeout"
  let ?log = "log @ [WaitForStateCall [''Deploying''] [''Deployed''] timeout]"
  have "Refresh ?cf = VPCOriginStatus c ident" by (simp add: deployedConf_def)
  from poll_log [OF this, of "repeats timeout d" "(Nil, '''')" ?log]
  obtain n where "snd (poll ?cf (repeats timeout d) (Nil, '''') ?log) =
      ?log @ replicate (Suc n) (GetVpcOriginCall ident)" by blast
  then have "snd (waitVPCOriginDeployed d c ident timeout log) =
     log @ WaitForStateCall [''Deploying''] [''Deployed''] timeout
       # replicate (Suc n) (GetVpcOriginCall ident)"
    by (simp add: waitVPCOriginDeployed_def WaitForStateContext_def Let_def snd_wait_result)
      (simp add: deployedConf_def)
  then show ?thesis ..
qed

lemma waitVPCOriginDeleted_log:
  "\<exists>n. snd (waitVPCOriginDeleted d c ident timeout log) =
     log @ WaitForStateCall [''Deploying''] [] timeout
       # replicate (Suc n) (GetVpcOriginCall ident)"
proof -
  let ?cf = "deletedConf c ident timeout"
  let ?log = "log @ [WaitForStateCall [''Deploying''] [] timeout]"
  have "Refresh ?cf = VPCOriginStatus c ident" by (simp add: deletedConf_def)
  from poll_log [OF this, of "repeats timeout d" "(Nil, '''')" ?log]
  obtain n where "snd (poll ?cf (repeats timeout d) (Nil, '''') ?log) =
      ?log @ replicate (Suc n) (GetVpcOriginCall ident)" by blast
  then have "snd (waitVPCOriginDeleted d c ident timeout log) =
     log @ WaitForStateCall [''Deploying''] [] timeout
       # replicate (Suc n) (GetVpcOriginCall ident)"
    by (simp add: waitVPCOriginDeleted_def WaitForStateContext_def Let_def snd_wait_result)
      (simp add: deletedConf_def)
  then show ?thesis ..
qed

text \<open>
  A run of transient read failures uses up repeats and nothing else: the engine goes on
  from the log those probes leave, with what it had observed before them.
\<close>

lemma poll_transient_run:
  assumes "Refresh cf = VPCOriginStatus c ident"
      and "\<forall>i<n. \<exists>out e. GetVpcOrigin c (log @ replicate i (GetVpcOriginCall ident)) ident
                          = (out, Some e) \<and> transient e"
      and "n \<le> k"
  shows "poll cf k seen log = poll cf (k - n) seen (log @ replicate n (GetVpcOriginCall ident))"
  using assms
proof (induction n arbitrary: k log)
  case 0
  then show ?case by simp
next
  case (Suc n)
  from Suc.prems(2) [rule_format, of 0]
  obtain out e where g: "GetVpcOrigin c log ident = (out, Some e)" and t: "transient e"
    by auto
  have nf: "\<not> IsA_EntityNotFound (Some e)"
    using t by (cases e rule: transient.cases) simp_all
  have r: "Refresh cf log = (Inr (Nil, '''', Some e), log @ [GetVpcOriginCall ident])"
    using Suc.prems(1) VPCOriginStatus_error [OF g nf] by simp
  have a: "assess (Pending cf) (Target cf) (probe_result_of (Nil, '''', Some e)) = Continue"
    using t by (simp add: assess_def probe_result_of_def)
  obtain k' where k: "k = Suc k'" "n \<le> k'"
    using Suc.prems(3) by (cases k) auto
  have step: "poll cf k seen log = poll cf k' seen (log @ [GetVpcOriginCall ident])"
    using poll_Continue_Suc [OF r a, of k' seen] k
    by (simp add: observed_def probe_result_of_def)
  have rest: "\<forall>i<n. \<exists>out e.
      GetVpcOrigin c ((log @ [GetVpcOriginCall ident]) @ replicate i (GetVpcOriginCall ident)) ident
        = (out, Some e) \<and> transient e"
    using Suc.prems(2) by (auto simp: replicate_app_Cons_same dest: Suc_mono)
  from Suc.IH [OF Suc.prems(1) rest k(2), of ] step k
  show ?case by (simp add: replicate_app_Cons_same)
qed

text \<open>
  When every read up to the deadline fails transiently, the wait ends in the timeout
  error after one probe more than the deadline allows repeats.
\<close>

lemma poll_transient_until_deadline:
  assumes "Refresh cf = VPCOriginStatus c ident"
      and "\<forall>i\<le>k. \<exists>out e. GetVpcOrigin c (log @ replicate i (GetVpcOriginCall ident)) ident
                          = (out, Some e) \<and> transient e"
  shows "poll cf k seen log =
           (Inr (fst seen, Some (TimeoutError (snd seen) (Target cf))),
            log @ replicate (Suc k) (GetVpcOriginCall ident))"
proof -
  have run: "poll cf k seen log = poll cf 0 seen (log @ replicate k (GetVpcOriginCall ident))"
    using poll_transient_run [OF assms(1), of k log k seen] assms(2) by simp
  from assms(2) [rule_format, of k]
  obtain out e where g:
    "GetVpcOrigin c (log @ replicate k (GetVpcOriginCall ident)) ident = (out, Some e)"
    and t: "transient e"
    by auto
  have nf: "\<not> IsA_EntityNotFound (Some e)"
    using t by (cases e rule: transient.cases) simp_all
  have r: "Refresh cf (log @ replicate k (GetVpcOriginCall ident)) =
      (Inr (Nil, '''', Some e), (log @ replicate k (GetVpcOriginCall ident)) @ [GetVpcOriginCall ident])"
    using assms(1) VPCOriginStatus_error [OF g nf] by simp
  have a: "assess (Pending cf) (Target cf) (probe_result_of (Nil, '''', Some e)) = Continue"
    using t by (simp add: assess_def probe_result_of_def)
  show ?thesis
    using poll_Continue_0 [OF r a, of seen] run
    by (simp add: observed_def probe_result_of_def replicate_append_same)
qed

text \<open>
  A status in neither set ends the engine at once, with the object and the
  unexpected-state error.
\<close>

lemma poll_unexpected_state:
  assumes "Refresh cf log = (Inr (obj, status, None), log')"
      and "obj \<noteq> Nil"
      and "status \<notin> set (Target cf)"
      and "status \<notin> set (Pending cf)"
  shows "poll cf k seen log = (Inr (obj, Some (UnexpectedState status (Target cf))), log')"
proof -
  have "assess (Pending cf) (Target cf) (probe_result_of (obj, status, None)) =
      Done obj (Some (UnexpectedState status (Target cf)))"
    using assms(2-4) by (simp add: assess_def probe_result_of_def)
  with assms(1) show ?thesis by (rule poll_Done)
qed

subsection \<open>The scenarios of the specification\<close>

text \<open>
  Two pending statuses, then the target status: three probes, success. The object is lost
  in the type assertion of the wait (see \<open>waits_return_no_object\<close> below).
\<close>

lemma scenario_deploying_deploying_deployed:
  "waitVPCOriginDeployed 1
     (scripted (None, None)
        [(Some (origin ''Deploying'' ''E1''), None), (Some (origin ''Deploying'' ''E1''), None),
         (Some (origin ''Deployed'' ''E2''), None)]) ''vo_1'' 10 [] =
   (Inr (None, None),
    [WaitForStateCall [''Deploying''] [''Deployed''] 10, GetVpcOriginCall ''vo_1'',
     GetVpcOriginCall ''vo_1'', GetVpcOriginCall ''vo_1''])"
  by code_simp

text \<open>A pending status, then not found, in a delete-wait: success with a nil object.\<close>

lemma scenario_deploying_then_gone:
  "waitVPCOriginDeleted 1
     (scripted (None, None) [(Some (origin ''Deploying'' ''E1''), None)]) ''vo_1'' 10 [] =
   (Inr (None, None),
    [WaitForStateCall [''Deploying''] [] 10, GetVpcOriginCall ''vo_1'',
     GetVpcOriginCall ''vo_1''])"
  by code_simp

text \<open>
  Only pending statuses: with a timeout of 2 and probes 1 apart, the probes at times 0 and
  1 take place and the wait ends in the timeout error.
\<close>

lemma scenario_timeout:
  "waitVPCOriginDeployed 1
     (scripted (None, None)
        [(Some (origin ''Deploying'' ''E1''), None), (Some (origin ''Deploying'' ''E1''), None),
         (Some (origin ''Deployed'' ''E2''), None)]) ''vo_1'' 2 [] =
   (Inr (None, Some (TimeoutError ''Deploying'' [''Deployed''])),
    [WaitForStateCall [''Deploying''] [''Deployed''] 2, GetVpcOriginCall ''vo_1'',
     GetVpcOriginCall ''vo_1''])"
  by code_simp

text \<open>A throttled read is retried, a denied one ends the wait.\<close>

lemma scenario_throttled_then_denied:
  "waitVPCOriginDeployed 1
     (scripted (None, None)
        [(None, Some (ApiError Throttling ''slow down'')),
         (None, Some (ApiError AccessDenied ''denied''))]) ''vo_1'' 10 [] =
   (Inr (None, Some (ApiError AccessDenied ''denied'')),
    [WaitForStateCall [''Deploying''] [''Deployed''] 10, GetVpcOriginCall ''vo_1'',
     GetVpcOriginCall ''vo_1''])"
  by code_simp

section \<open>Properties of the waits\<close>



text \<open>
  Claim C5. In a delete-wait, when the first read fails with the \<^verbatim>\<open>EntityNotFound\<close> class,
  the wait returns no error and a nil object, after this one probe.
\<close>

theorem delete_wait_not_found_succeeds:
  assumes "GetVpcOrigin c (log @ [WaitForStateCall [''Deploying''] [] timeout]) ident =
             (output, Some (ApiError EntityNotFound msg))"
  shows "waitVPCOriginDeleted d c ident timeout log =
           (Inr (None, None),
            log @ [WaitForStateCall [''Deploying''] [] timeout, GetVpcOriginCall ident])"
proof -
  let ?cf = "deletedConf c ident timeout"
  let ?log = "log @ [WaitForStateCall [''Deploying''] [] timeout]"
  have r: "Refresh ?cf ?log = (Inr (Nil, '''', None), ?log @ [GetVpcOriginCall ident])"
    using VPCOriginStatus_NotFound [OF assms] by (simp add: deletedConf_def)
  have a: "assess (Pending ?cf) (Target ?cf) (probe_result_of (Nil, '''', None)) = Done Nil None"
    by (simp add: assess_def probe_result_of_def deletedConf_def)
  have "WaitForStateContext d ?cf ?log = (Inr (Nil, None), ?log @ [GetVpcOriginCall ident])"
    unfolding WaitForStateContext_def by (rule poll_Done [OF r a])
  then show ?thesis
    by (simp add: waitVPCOriginDeleted_def assertVpcOrigin_def deletedConf_def)
qed

theorem delete_wait_not_found_succeeds_witness:
  "GetVpcOrigin (scripted (None, None) []) ([] @ [WaitForStateCall [''Deploying''] [] 3]) ''vo_1'' =
     (None, Some (ApiError EntityNotFound ''not found''))
   \<and> waitVPCOriginDeleted 1 (scripted (None, None) []) ''vo_1'' 3 [] =
       (Inr (None, None), [WaitForStateCall [''Deploying''] [] 3, GetVpcOriginCall ''vo_1''])"
proof -
  have h: "GetVpcOrigin (scripted (None, None) [])
             ([] @ [WaitForStateCall [''Deploying''] [] 3]) ''vo_1'' =
           (None, Some (ApiError EntityNotFound ''not found''))"
    by (simp add: scripted_def answer_def)
  show ?thesis using h delete_wait_not_found_succeeds [OF h, of 1] by simp
qed

text \<open>
  Claim C6. When every read of the identity fails with the \<^verbatim>\<open>EntityNotFound\<close> class, a wait
  with a non-empty target set on this prober ends in the unexpected-disappearance error, and
  so does \<^verbatim>\<open>waitVPCOriginDeployed\<close>; neither returns success.
\<close>

theorem deployed_wait_not_found_fails:
  assumes "\<forall>h. IsA_EntityNotFound (snd (GetVpcOrigin c h ident))"
  shows "(Target cf \<noteq> [] \<and> Refresh cf = VPCOriginStatus c ident \<longrightarrow>
            WaitForStateContext d cf log =
              (Inr (Nil, Some UnexpectedDisappearance), log @ [GetVpcOriginCall ident]))
       \<and> waitVPCOriginDeployed d c ident timeout log =
           (Inr (None, Some UnexpectedDisappearance),
            log @ [WaitForStateCall [''Deploying''] [''Deployed''] timeout,
                   GetVpcOriginCall ident])"
proof -
  have st: "VPCOriginStatus c ident h = (Inr (Nil, '''', None), h @ [GetVpcOriginCall ident])"
    for h
    using assms [rule_format, of h]
    by (cases "GetVpcOrigin c h ident") (simp add: VPCOriginStatus_def)
  have gen: "WaitForStateContext d cf' h =
        (Inr (Nil, Some UnexpectedDisappearance), h @ [GetVpcOriginCall ident])"
    if "Target cf' \<noteq> []" "Refresh cf' = VPCOriginStatus c ident" for cf' h
  proof -
    have r: "Refresh cf' h = (Inr (Nil, '''', None), h @ [GetVpcOriginCall ident])"
      using that st by simp
    have a: "assess (Pending cf') (Target cf') (probe_result_of (Nil, '''', None)) =
               Done Nil (Some UnexpectedDisappearance)"
      using that by (simp add: assess_def probe_result_of_def)
    show ?thesis unfolding WaitForStateContext_def by (rule poll_Done [OF r a])
  qed
  have "waitVPCOriginDeployed d c ident timeout log =
           (Inr (None, Some UnexpectedDisappearance),
            log @ [WaitForStateCall [''Deploying''] [''Deployed''] timeout,
                   GetVpcOriginCall ident])"
    using gen [of "deployedConf c ident timeout"
        "log @ [WaitForStateCall [''Deploying''] [''Deployed''] timeout]"]
    by (simp add: waitVPCOriginDeployed_def assertVpcOrigin_def deployedConf_def)
  with gen show ?thesis by blast
qed

theorem deployed_wait_not_found_fails_witness:
  "(\<forall>h. IsA_EntityNotFound (snd (GetVpcOrigin (scripted (None, None) []) h ''vo_1'')))
   \<and> WaitForStateContext 1 (deployedConf (scripted (None, None) []) ''vo_1'' 3) [] =
       (Inr (Nil, Some UnexpectedDisappearance), [GetVpcOriginCall ''vo_1''])
   \<and> waitVPCOriginDeployed 1 (scripted (None, None) []) ''vo_1'' 3 [] =
       (Inr (None, Some UnexpectedDisappearance),
        [WaitForStateCall [''Deploying''] [''Deployed''] 3, GetVpcOriginCall ''vo_1''])"
proof -
  have h: "\<forall>h. IsA_EntityNotFound (snd (GetVpcOrigin (scripted (None, None) []) h ''vo_1''))"
    by (simp add: scripted_def answer_def)
  show ?thesis
    using h deployed_wait_not_found_fails [OF h,
        where cf = "deployedConf (scripted (None, None) []) ''vo_1'' 3"
          and d = 1 and log = "[]" and timeout = 3]
    by (simp add: deployedConf_def)
qed

text \<open>
  Claim C7, at a run where the claim and the code part. The first read shows the status
  \<^verbatim>\<open>Failed\<close>, in neither set. The engine returns the unexpected-state error at once together
  with the object it observed; \<^verbatim>\<open>waitVPCOriginDeployed\<close> returns the error with a nil
  object, because the observed object is a \<^verbatim>\<open>*cloudfront.GetVpcOriginOutput\<close> and the type
  assertion asks for a \<^verbatim>\<open>*awstypes.VpcOrigin\<close>.
\<close>

theorem deployed_wait_drops_object_on_unexpected_state:
  "WaitForStateContext 1
     (deployedConf (scripted (None, None) [(Some (origin ''Failed'' ''E1''), None)]) ''vo_1'' 3)
     [WaitForStateCall [''Deploying''] [''Deployed''] 3] =
     (Inr (GetVpcOriginOutputPtr (origin ''Failed'' ''E1''),
           Some (UnexpectedState ''Failed'' [''Deployed''])),
      [WaitForStateCall [''Deploying''] [''Deployed''] 3, GetVpcOriginCall ''vo_1''])
   \<and> waitVPCOriginDeployed 1
       (scripted (None, None) [(Some (origin ''Failed'' ''E1''), None)]) ''vo_1'' 3 [] =
       (Inr (None, Some (UnexpectedState ''Failed'' [''Deployed''])),
        [WaitForStateCall [''Deploying''] [''Deployed''] 3, GetVpcOriginCall ''vo_1''])"
  by code_simp

text \<open>
  Whatever the run, the two waits never return an object: the engine returns the nil
  interface or an object of the prober's type, never a \<^verbatim>\<open>*awstypes.VpcOrigin\<close>.
\<close>

lemma poll_never_VpcOriginPtr:
  "Refresh cf = VPCOriginStatus c ident \<Longrightarrow>
   fst (poll cf k seen log) = Inr (obj, err) \<Longrightarrow>
   (case seen of (VpcOriginPtr _, _) \<Rightarrow> False | _ \<Rightarrow> True) \<Longrightarrow>
   (case obj of VpcOriginPtr _ \<Rightarrow> False | _ \<Rightarrow> True)"
proof (induction k arbitrary: seen log)
  case 0
  then show ?case
    by (auto simp: VPCOriginStatus_def Let_def assess_def probe_result_of_def observed_def
        split: prod.splits option.splits if_splits interface.splits)
next
  case (Suc k)
  obtain res log' where r: "VPCOriginStatus c ident log = (res, log')"
    by (cases "VPCOriginStatus c ident log")
  show ?case
  proof (cases res)
    case (Inl p)
    then show ?thesis using Suc.prems r by simp
  next
    case (Inr x)
    have x: "(case fst x of VpcOriginPtr _ \<Rightarrow> False | _ \<Rightarrow> True)"
      using r Inr
      by (auto simp: VPCOriginStatus_def Let_def split: prod.splits option.splits if_splits)
    show ?thesis
    proof (cases "assess (Pending cf) (Target cf) (probe_result_of x)")
      case (Done obj' err')
      then show ?thesis
        using Suc.prems r Inr x
        by (cases x)
          (auto simp: assess_def probe_result_of_def
            split: option.splits if_splits interface.splits probe_result.splits)
    next
      case Continue
      have s: "(case observed seen (probe_result_of x) of (VpcOriginPtr _, _) \<Rightarrow> False | _ \<Rightarrow> True)"
        using x Suc.prems(3)
        by (cases x)
          (auto simp: observed_def probe_result_of_def
            split: option.splits if_splits interface.splits prod.splits)
      show ?thesis
        using Suc.IH [OF Suc.prems(1) _ s, of log'] Suc.prems(1,2) r Inr Continue by simp
    qed
  qed
qed

lemma waits_return_no_object:
  "(fst (waitVPCOriginDeployed d c ident timeout log) = Inr (output, err) \<longrightarrow> output = None)
   \<and> (fst (waitVPCOriginDeleted d c ident timeout log) = Inr (output, err) \<longrightarrow> output = None)"
proof -
  have none: "output = None"
    if "Refresh cf = VPCOriginStatus c ident"
      and "fst (case WaitForStateContext d cf l of
                  (Inl p, l') \<Rightarrow> (Inl p, l')
                | (Inr r, l') \<Rightarrow> (Inr (assertVpcOrigin r), l')) = Inr (output, err)"
    for cf l
  proof -
    obtain res l' where w: "poll cf (repeats (Timeout cf) d) (Nil, '''') l = (res, l')"
      by (cases "poll cf (repeats (Timeout cf) d) (Nil, '''') l")
    from that(2) w obtain obj e where res: "res = Inr (obj, e)"
      and out: "assertVpcOrigin (obj, e) = (output, err)"
      by (cases res) (auto simp: WaitForStateContext_def)
    have "case obj of VpcOriginPtr _ \<Rightarrow> False | _ \<Rightarrow> True"
      using poll_never_VpcOriginPtr [OF that(1), of "repeats (Timeout cf) d" "(Nil, '''')" l obj e]
        w res
      by simp
    with out show ?thesis
      by (auto simp: assertVpcOrigin_def split: interface.splits)
  qed
  show ?thesis
    using none [of "deployedConf c ident timeout"
        "log @ [WaitForStateCall [''Deploying''] [''Deployed''] timeout]"]
      none [of "deletedConf c ident timeout"
        "log @ [WaitForStateCall [''Deploying''] [] timeout]"]
    by (simp add: waitVPCOriginDeployed_def waitVPCOriginDeleted_def Let_def)
      (simp add: deployedConf_def deletedConf_def)
qed

section \<open>Properties of the lifecycle operations\<close>

subsection \<open>The calls an operation makes\<close>

lemma Create_log:
  "snd (Create r fw d ctx request response log) = log \<or>
   (\<exists>input n. snd (Create r fw d ctx request response log) =
      log @ CreateVpcOriginCall input
        # WaitForStateCall [''Deploying''] [''Deployed'']
            (CreateTimeout r (m_Timeouts (snd (req_Plan request))))
        # replicate (Suc n) (GetVpcOriginCall (ValueString (m_Id (snd (req_Plan request))))))"
proof -
  obtain diags data where p: "req_Plan request = (diags, data)" by (cases "req_Plan request")
  obtain diags' input0 where e:
    "Expand_create fw data \<lparr>ci_Tags = None, ci_VpcOriginEndpointConfig = None\<rparr> = (diags', input0)"
    by (cases "Expand_create fw data \<lparr>ci_Tags = None, ci_VpcOriginEndpointConfig = None\<rparr>")
  show ?thesis
  proof (cases "HasError (Diagnostics response @ diags)")
    case True
    then show ?thesis by (simp add: Create_def p Append_def)
  next
    case False
    show ?thesis
    proof (cases "if length (getTagsIn ctx) > 0 then setTagsItems input0 (getTagsIn ctx)
                  else Inr input0")
      case (Inl pn)
      then show ?thesis using False by (simp add: Create_def p e Append_def Let_def)
    next
      case (Inr input)
      obtain res log' where w:
        "waitVPCOriginDeployed d (CloudFrontClient r) (ValueString (m_Id data))
           (CreateTimeout r (m_Timeouts data)) (log @ [CreateVpcOriginCall input]) = (res, log')"
        by (cases "waitVPCOriginDeployed d (CloudFrontClient r) (ValueString (m_Id data))
            (CreateTimeout r (m_Timeouts data)) (log @ [CreateVpcOriginCall input])")
      obtain n where n: "log' =
          (log @ [CreateVpcOriginCall input])
            @ WaitForStateCall [''Deploying''] [''Deployed''] (CreateTimeout r (m_Timeouts data))
            # replicate (Suc n) (GetVpcOriginCall (ValueString (m_Id data)))"
        using waitVPCOriginDeployed_log [of d "CloudFrontClient r" "ValueString (m_Id data)"
            "CreateTimeout r (m_Timeouts data)" "log @ [CreateVpcOriginCall input]"] w by auto
      have "snd (Create r fw d ctx request response log) = log'"
        using False Inr w
        by (simp add: Create_def p e Append_def Let_def
            split: prod.splits sum.splits option.splits)
      then have "snd (Create r fw d ctx request response log) =
          log @ CreateVpcOriginCall input
            # WaitForStateCall [''Deploying''] [''Deployed''] (CreateTimeout r (m_Timeouts data))
            # replicate (Suc n) (GetVpcOriginCall (ValueString (m_Id data)))"
        using n by simp
      then show ?thesis using p by auto
    qed
  qed
qed

lemma Update_log:
  "snd (Update r fw d ctx request response log) = log \<or>
   (\<exists>input n. snd (Update r fw d ctx request response log) =
      log @ UpdateVpcOriginCall input
        # WaitForStateCall [''Deploying''] [''Deployed'']
            (UpdateTimeout r (m_Timeouts (snd (req_State request))))
        # replicate (Suc n) (GetVpcOriginCall (ValueString (m_Id (snd (req_State request))))))"
proof -
  obtain diags old where s: "req_State request = (diags, old)" by (cases "req_State request")
  obtain diags' new where p: "req_Plan request = (diags', new)" by (cases "req_Plan request")
  let ?input0 = "\<lparr>ui_Id = Some (ValueString (m_Id new)),
                   ui_IfMatch = Some (ValueString (m_ETag old)),
                   ui_VpcOriginEndpointConfig = None\<rparr>"
  obtain diags'' input where e: "Expand_update fw new ?input0 = (diags'', input)"
    by (cases "Expand_update fw new ?input0")
  show ?thesis
  proof (cases "HasError (Diagnostics response @ diags)
      \<or> HasError (Diagnostics response @ diags @ diags')
      \<or> HasError (Diagnostics response @ diags @ diags' @ diags'')")
    case True
    then show ?thesis by (auto simp: Update_def s p e Append_def Let_def)
  next
    case False
    obtain res log' where w:
      "waitVPCOriginDeployed d (CloudFrontClient r) (ValueString (m_Id old))
         (UpdateTimeout r (m_Timeouts old)) (log @ [UpdateVpcOriginCall input]) = (res, log')"
      by (cases "waitVPCOriginDeployed d (CloudFrontClient r) (ValueString (m_Id old))
          (UpdateTimeout r (m_Timeouts old)) (log @ [UpdateVpcOriginCall input])")
    obtain n where n: "log' =
        (log @ [UpdateVpcOriginCall input])
          @ WaitForStateCall [''Deploying''] [''Deployed''] (UpdateTimeout r (m_Timeouts old))
          # replicate (Suc n) (GetVpcOriginCall (ValueString (m_Id old)))"
      using waitVPCOriginDeployed_log [of d "CloudFrontClient r" "ValueString (m_Id old)"
          "UpdateTimeout r (m_Timeouts old)" "log @ [UpdateVpcOriginCall input]"] w by auto
    have "snd (Update r fw d ctx request response log) = log'"
      using False w
      by (simp add: Update_def s p e Append_def Let_def Error_text_def
          split: prod.splits sum.splits option.splits)
    then have "snd (Update r fw d ctx request response log) =
        log @ UpdateVpcOriginCall input
          # WaitForStateCall [''Deploying''] [''Deployed''] (UpdateTimeout r (m_Timeouts old))
          # replicate (Suc n) (GetVpcOriginCall (ValueString (m_Id old)))"
      using n by simp
    then show ?thesis using s by auto
  qed
qed

lemma Delete_log:
  "snd (Delete r d ctx request response log) = log \<or>
   (\<exists>input n. snd (Delete r d ctx request response log) =
      log @ DeleteVpcOriginCall input
        # WaitForStateCall [''Deploying''] []
            (DeleteTimeout r (m_Timeouts (snd (req_State request))))
        # replicate (Suc n) (GetVpcOriginCall (ValueString (m_Id (snd (req_State request))))))"
proof -
  obtain diags data where s: "req_State request = (diags, data)" by (cases "req_State request")
  let ?input = "\<lparr>di_Id = Some (ValueString (m_Id data)),
                  di_IfMatch = Some (ValueString (m_ETag data))\<rparr>"
  show ?thesis
  proof (cases "HasError (Diagnostics response @ diags)")
    case True
    then show ?thesis by (auto simp: Delete_def s Append_def Let_def)
  next
    case False
    obtain res log' where w:
      "waitVPCOriginDeleted d (CloudFrontClient r) (ValueString (m_Id data))
         (DeleteTimeout r (m_Timeouts data)) (log @ [DeleteVpcOriginCall ?input]) = (res, log')"
      by (cases "waitVPCOriginDeleted d (CloudFrontClient r) (ValueString (m_Id data))
          (DeleteTimeout r (m_Timeouts data)) (log @ [DeleteVpcOriginCall ?input])")
    obtain n where n: "log' =
        (log @ [DeleteVpcOriginCall ?input])
          @ WaitForStateCall [''Deploying''] [] (DeleteTimeout r (m_Timeouts data))
          # replicate (Suc n) (GetVpcOriginCall (ValueString (m_Id data)))"
      using waitVPCOriginDeleted_log [of d "CloudFrontClient r" "ValueString (m_Id data)"
          "DeleteTimeout r (m_Timeouts data)" "log @ [DeleteVpcOriginCall ?input]"] w by auto
    have "snd (Delete r d ctx request response log) = log'"
      using False w
      by (simp add: Delete_def s Append_def Let_def
          split: prod.splits sum.splits option.splits)
    then have "snd (Delete r d ctx request response log) =
        log @ DeleteVpcOriginCall ?input
          # WaitForStateCall [''Deploying''] [] (DeleteTimeout r (m_Timeouts data))
          # replicate (Suc n) (GetVpcOriginCall (ValueString (m_Id data)))"
      using n by simp
    then show ?thesis using s by auto
  qed
qed

text \<open>
  Claim C4. Whatever the remote system answers, also to the mutating call, an operation
  either makes no call at all (it returned or panicked before the mutating call), or its
  mutating call is followed at once by the call of the wait and at least one probe.
\<close>

theorem wait_follows_mutating_call:
  "(snd (Create r fw d ctx request response log) = log \<or>
    (\<exists>input n. snd (Create r fw d ctx request response log) =
       log @ CreateVpcOriginCall input
         # WaitForStateCall [''Deploying''] [''Deployed'']
             (CreateTimeout r (m_Timeouts (snd (req_Plan request))))
         # replicate (Suc n) (GetVpcOriginCall (ValueString (m_Id (snd (req_Plan request)))))))
   \<and> (snd (Update r fw d ctx request response log) = log \<or>
    (\<exists>input n. snd (Update r fw d ctx request response log) =
       log @ UpdateVpcOriginCall input
         # WaitForStateCall [''Deploying''] [''Deployed'']
             (UpdateTimeout r (m_Timeouts (snd (req_State request))))
         # replicate (Suc n) (GetVpcOriginCall (ValueString (m_Id (snd (req_State request)))))))
   \<and> (snd (Delete r d ctx request response log) = log \<or>
    (\<exists>input n. snd (Delete r d ctx request response log) =
       log @ DeleteVpcOriginCall input
         # WaitForStateCall [''Deploying''] []
             (DeleteTimeout r (m_Timeouts (snd (req_State request))))
         # replicate (Suc n) (GetVpcOriginCall (ValueString (m_Id (snd (req_State request)))))))"
  by (intro conjI Create_log Update_log Delete_log)

text \<open>
  The same at a run where each mutating call fails with an access-denied error: the wait
  is called all the same and probes.
\<close>

theorem wait_follows_mutating_call_witness:
  "CreateVpcOrigin (scripted (None, Some (ApiError AccessDenied ''denied'')) []) []
     \<lparr>ci_Tags = None, ci_VpcOriginEndpointConfig = None\<rparr> =
     (None, Some (ApiError AccessDenied ''denied''))
   \<and> snd (Create (example_resource (scripted (None, Some (ApiError AccessDenied ''denied'')) []))
            example_flex 1 no_tags create_request empty_response []) =
       [CreateVpcOriginCall \<lparr>ci_Tags = None, ci_VpcOriginEndpointConfig = None\<rparr>,
        WaitForStateCall [''Deploying''] [''Deployed''] 3, GetVpcOriginCall '''']
   \<and> snd (Update (example_resource (scripted (None, Some (ApiError AccessDenied ''denied'')) []))
            example_flex 1 no_tags example_request prior_response []) =
       [UpdateVpcOriginCall \<lparr>ui_Id = Some ''vo_1'', ui_IfMatch = Some ''E1'',
          ui_VpcOriginEndpointConfig = None\<rparr>,
        WaitForStateCall [''Deploying''] [''Deployed''] 3, GetVpcOriginCall ''vo_1'']
   \<and> snd (Delete (example_resource (scripted (None, Some (ApiError AccessDenied ''denied'')) []))
            1 no_tags example_request prior_response []) =
       [DeleteVpcOriginCall \<lparr>di_Id = Some ''vo_1'', di_IfMatch = Some ''E1''\<rparr>,
        WaitForStateCall [''Deploying''] [] 3, GetVpcOriginCall ''vo_1'']"
proof -
  let ?r = "example_resource (scripted (None, Some (ApiError AccessDenied ''denied'')) [])"
  have c: "snd (Create ?r example_flex 1 no_tags create_request empty_response []) =
       [CreateVpcOriginCall \<lparr>ci_Tags = None, ci_VpcOriginEndpointConfig = None\<rparr>,
        WaitForStateCall [''Deploying''] [''Deployed''] 3, GetVpcOriginCall '''']"
    by code_simp
  have u: "snd (Update ?r example_flex 1 no_tags example_request prior_response []) =
       [UpdateVpcOriginCall \<lparr>ui_Id = Some ''vo_1'', ui_IfMatch = Some ''E1'',
          ui_VpcOriginEndpointConfig = None\<rparr>,
        WaitForStateCall [''Deploying''] [''Deployed''] 3, GetVpcOriginCall ''vo_1'']"
    by code_simp
  have d: "snd (Delete ?r 1 no_tags example_request prior_response []) =
       [DeleteVpcOriginCall \<lparr>di_Id = Some ''vo_1'', di_IfMatch = Some ''E1''\<rparr>,
        WaitForStateCall [''Deploying''] [] 3, GetVpcOriginCall ''vo_1'']"
    by code_simp
  show ?thesis
    using wait_follows_mutating_call [of ?r example_flex 1 no_tags create_request empty_response "[]"]
      c u d
    by (simp add: scripted_def)
qed

subsection \<open>What Create and Update write into the state\<close>

text \<open>
  Claim C2, as the code has it. When the wait of a Create succeeds and the create call
  returned an output with its origin, the state written is the plan with ARN, created time,
  identity, last-modified time, status and ETag taken from the output of the create call.
  When the wait of an Update succeeds and the update call returned an output with its
  origin, the state written is the plan with created time, last-modified time, status and
  ETag taken from the output of the update call. Every other attribute keeps the value
  submitted in the request; the result of the wait is not used.
\<close>

theorem state_merged_from_mutation_output:
  "(req_Plan request = (diags, data) \<and>
    \<not> HasError (Diagnostics response @ diags) \<and>
    Expand_create fw data \<lparr>ci_Tags = None, ci_VpcOriginEndpointConfig = None\<rparr>
      = (diags', input0) \<and>
    (if length (getTagsIn ctx) > 0 then setTagsItems input0 (getTagsIn ctx) else Inr input0)
      = Inr input \<and>
    CreateVpcOrigin (CloudFrontClient r) log input = (Some out, err) \<and>
    out_VpcOrigin out = Some vo \<and>
    waitVPCOriginDeployed d (CloudFrontClient r) (ValueString (m_Id data))
      (CreateTimeout r (m_Timeouts data)) (log @ [CreateVpcOriginCall input])
      = (Inr (obj, None), log')
    \<longrightarrow>
    Create r fw d ctx request response log =
      (Inr \<lparr>Diagnostics = Diagnostics response @ diags @ diags',
            State = Some (data
              \<lparr>m_ARN := StringToFramework (vo_Arn vo),
               m_CreatedTime := TimeToFramework (vo_CreatedTime vo),
               m_Id := StringToFramework (vo_Id vo),
               m_LastModifiedTime := TimeToFramework (vo_LastModifiedTime vo),
               m_Status := StringToFramework (vo_Status vo),
               m_ETag := StringToFramework (out_ETag out)\<rparr>)\<rparr>, log'))
 \<and> (req_State urequest = (udiags, old) \<and>
    \<not> HasError (Diagnostics response @ udiags) \<and>
    req_Plan urequest = (udiags', new) \<and>
    \<not> HasError (Diagnostics response @ udiags @ udiags') \<and>
    Expand_update fw new
      \<lparr>ui_Id = Some (ValueString (m_Id new)), ui_IfMatch = Some (ValueString (m_ETag old)),
       ui_VpcOriginEndpointConfig = None\<rparr> = (udiags'', uinput) \<and>
    \<not> HasError (Diagnostics response @ udiags @ udiags' @ udiags'') \<and>
    UpdateVpcOrigin (CloudFrontClient r) log uinput = (Some uout, uerr) \<and>
    out_VpcOrigin uout = Some uvo \<and>
    waitVPCOriginDeployed d (CloudFrontClient r) (ValueString (m_Id old))
      (UpdateTimeout r (m_Timeouts old)) (log @ [UpdateVpcOriginCall uinput])
      = (Inr (uobj, None), ulog')
    \<longrightarrow>
    Update r fw d ctx urequest response log =
      (Inr \<lparr>Diagnostics = Diagnostics response @ udiags @ udiags' @ udiags'',
            State = Some (new
              \<lparr>m_CreatedTime := TimeToFramework (vo_CreatedTime uvo),
               m_LastModifiedTime := TimeToFramework (vo_LastModifiedTime uvo),
               m_Status := StringToFramework (vo_Status uvo),
               m_ETag := StringToFramework (out_ETag uout)\<rparr>)\<rparr>, ulog'))"
  by (simp add: Create_def Update_def Append_def Let_def)

text \<open>
  A run of each: the mutating call answers with status \<^verbatim>\<open>Deploying\<close> and ETag \<^verbatim>\<open>E1\<close>,
  the probe of the wait then shows \<^verbatim>\<open>Deployed\<close> and \<^verbatim>\<open>E2\<close>.
\<close>

theorem state_merged_from_mutation_output_witness:
  "Create (example_resource (scripted (Some (origin ''Deploying'' ''E1''), None)
                               [(Some (origin ''Deployed'' ''E2''), None)]))
     example_flex 1 no_tags create_request empty_response [] =
     (Inr \<lparr>Diagnostics = [],
           State = Some (example_plan
             \<lparr>m_ARN := Known ''arn:aws:cloudfront::1:vpcorigin/vo_1'',
              m_CreatedTime := Known 100, m_Id := Known ''vo_1'',
              m_LastModifiedTime := Known 200, m_Status := Known ''Deploying'',
              m_ETag := Known ''E1''\<rparr>)\<rparr>,
      [CreateVpcOriginCall \<lparr>ci_Tags = None, ci_VpcOriginEndpointConfig = None\<rparr>,
       WaitForStateCall [''Deploying''] [''Deployed''] 3, GetVpcOriginCall ''''])
   \<and> Update (example_resource (scripted (Some (origin ''Deploying'' ''E1''), None)
                               [(Some (origin ''Deployed'' ''E2''), None)]))
     example_flex 1 no_tags example_request empty_response [] =
     (Inr \<lparr>Diagnostics = [],
           State = Some (example_state
             \<lparr>m_CreatedTime := Known 100, m_LastModifiedTime := Known 200,
              m_Status := Known ''Deploying'', m_ETag := Known ''E1''\<rparr>)\<rparr>,
      [UpdateVpcOriginCall \<lparr>ui_Id = Some ''vo_1'', ui_IfMatch = Some ''E1'',
         ui_VpcOriginEndpointConfig = None\<rparr>,
       WaitForStateCall [''Deploying''] [''Deployed''] 3, GetVpcOriginCall ''vo_1''])"
proof -
  let ?c = "scripted (Some (origin ''Deploying'' ''E1''), None)
              [(Some (origin ''Deployed'' ''E2''), None)]"
  let ?r = "example_resource ?c"
  let ?cin = "\<lparr>ci_Tags = None, ci_VpcOriginEndpointConfig = None\<rparr>"
  let ?uin = "\<lparr>ui_Id = Some ''vo_1'', ui_IfMatch = Some ''E1'',
                ui_VpcOriginEndpointConfig = None\<rparr>"
  let ?new = "example_state\<lparr>m_Status := Unknown, m_ETag := Unknown\<rparr>"
  let ?vo = "\<lparr>vo_Arn = Some ''arn:aws:cloudfront::1:vpcorigin/vo_1'',
        vo_CreatedTime = Some 100, vo_Id = Some ''vo_1'', vo_LastModifiedTime = Some 200,
        vo_Status = Some ''Deploying'', vo_VpcOriginEndpointConfig = None\<rparr>"
  let ?clog = "[CreateVpcOriginCall ?cin, WaitForStateCall [''Deploying''] [''Deployed''] 3,
                GetVpcOriginCall '''']"
  let ?ulog = "[UpdateVpcOriginCall ?uin, WaitForStateCall [''Deploying''] [''Deployed''] 3,
                GetVpcOriginCall ''vo_1'']"
  have p: "req_Plan create_request = ([], example_plan)"
    by (simp add: create_request_def)
  have h: "\<not> HasError (Diagnostics empty_response @ [])"
    by (simp add: empty_response_def HasError_def)
  have e: "Expand_create example_flex example_plan ?cin = ([], ?cin)"
    by (simp add: example_flex_def)
  have t: "(if length (getTagsIn no_tags) > 0 then setTagsItems ?cin (getTagsIn no_tags)
            else Inr ?cin) = Inr ?cin"
    by (simp add: no_tags_def)
  have m: "CreateVpcOrigin (CloudFrontClient ?r) [] ?cin = (Some (origin ''Deploying'' ''E1''), None)"
    by (simp add: example_resource_def scripted_def)
  have v: "out_VpcOrigin (origin ''Deploying'' ''E1'') = Some ?vo"
    by (simp add: origin_def)
  have w: "waitVPCOriginDeployed 1 ?c '''' 3 [CreateVpcOriginCall ?cin] = (Inr (None, None), ?clog)"
    by code_simp
  have w': "waitVPCOriginDeployed 1 (CloudFrontClient ?r) (ValueString (m_Id example_plan))
      (CreateTimeout ?r (m_Timeouts example_plan)) ([] @ [CreateVpcOriginCall ?cin]) =
      (Inr (None, None), ?clog)"
    using w by (simp add: example_resource_def example_plan_def ValueString_def)
  have us: "req_State example_request = ([], example_state)"
    by (simp add: example_request_def)
  have up: "req_Plan example_request = ([], ?new)"
    by (simp add: example_request_def)
  have uh2: "\<not> HasError (Diagnostics empty_response @ [] @ [])"
    by (simp add: empty_response_def HasError_def)
  have uh3: "\<not> HasError (Diagnostics empty_response @ [] @ [] @ [])"
    by (simp add: empty_response_def HasError_def)
  have ue: "Expand_update example_flex ?new
      \<lparr>ui_Id = Some (ValueString (m_Id ?new)),
       ui_IfMatch = Some (ValueString (m_ETag example_state)),
       ui_VpcOriginEndpointConfig = None\<rparr> = ([], ?uin)"
    by (simp add: example_flex_def example_state_def ValueString_def)
  have um: "UpdateVpcOrigin (CloudFrontClient ?r) [] ?uin = (Some (origin ''Deploying'' ''E1''), None)"
    by (simp add: example_resource_def scripted_def)
  have uw: "waitVPCOriginDeployed 1 ?c ''vo_1'' 3 [UpdateVpcOriginCall ?uin] = (Inr (None, None), ?ulog)"
    by code_simp
  have uw': "waitVPCOriginDeployed 1 (CloudFrontClient ?r) (ValueString (m_Id example_state))
      (UpdateTimeout ?r (m_Timeouts example_state)) ([] @ [UpdateVpcOriginCall ?uin]) =
      (Inr (None, None), ?ulog)"
    using uw by (simp add: example_resource_def example_state_def example_plan_def ValueString_def)
  note both = state_merged_from_mutation_output
      [where request = create_request and diags = "[]" and data = example_plan
         and response = empty_response and fw = example_flex and diags' = "[]"
         and input0 = ?cin and ctx = no_tags and input = ?cin and r = ?r and log = "[]"
         and out = "origin ''Deploying'' ''E1''" and err = None and vo = ?vo
         and d = 1 and obj = None and log' = ?clog
         and urequest = example_request and udiags = "[]" and old = example_state
         and udiags' = "[]" and new = ?new and udiags'' = "[]" and uinput = ?uin
         and uout = "origin ''Deploying'' ''E1''" and uerr = None and uvo = ?vo
         and uobj = None and ulog' = ?ulog]
  have c: "Create ?r example_flex 1 no_tags create_request empty_response [] =
      (Inr \<lparr>Diagnostics = Diagnostics empty_response @ [] @ [],
            State = Some (example_plan
              \<lparr>m_ARN := StringToFramework (vo_Arn ?vo),
               m_CreatedTime := TimeToFramework (vo_CreatedTime ?vo),
               m_Id := StringToFramework (vo_Id ?vo),
               m_LastModifiedTime := TimeToFramework (vo_LastModifiedTime ?vo),
               m_Status := StringToFramework (vo_Status ?vo),
               m_ETag := StringToFramework (out_ETag (origin ''Deploying'' ''E1''))\<rparr>)\<rparr>, ?clog)"
    using both p h e t m v w' by blast
  have u: "Update ?r example_flex 1 no_tags example_request empty_response [] =
      (Inr \<lparr>Diagnostics = Diagnostics empty_response @ [] @ [] @ [],
            State = Some (?new
              \<lparr>m_CreatedTime := TimeToFramework (vo_CreatedTime ?vo),
               m_LastModifiedTime := TimeToFramework (vo_LastModifiedTime ?vo),
               m_Status := StringToFramework (vo_Status ?vo),
               m_ETag := StringToFramework (out_ETag (origin ''Deploying'' ''E1''))\<rparr>)\<rparr>, ?ulog)"
    using both us h up uh2 ue uh3 um v uw' by blast
  show ?thesis
    using c u
    by (simp add: empty_response_def origin_def StringToFramework_def TimeToFramework_def)
qed

text \<open>
  Claim C2 as stated fails on that Create: the wait succeeds and its final probe shows
  status \<^verbatim>\<open>Deployed\<close> and ETag \<^verbatim>\<open>E2\<close>, the state written has status \<^verbatim>\<open>Deploying\<close> and
  ETag \<^verbatim>\<open>E1\<close>, those of the create call's output.
\<close>

theorem state_not_merged_from_final_probe:
  "WaitForStateContext 1
     (deployedConf (scripted (Some (origin ''Deploying'' ''E1''), None)
                      [(Some (origin ''Deployed'' ''E2''), None)]) '''' 3)
     [CreateVpcOriginCall \<lparr>ci_Tags = None, ci_VpcOriginEndpointConfig = None\<rparr>,
      WaitForStateCall [''Deploying''] [''Deployed''] 3] =
     (Inr (GetVpcOriginOutputPtr (origin ''Deployed'' ''E2''), None),
      [CreateVpcOriginCall \<lparr>ci_Tags = None, ci_VpcOriginEndpointConfig = None\<rparr>,
       WaitForStateCall [''Deploying''] [''Deployed''] 3, GetVpcOriginCall ''''])
   \<and> fst (Create (example_resource (scripted (Some (origin ''Deploying'' ''E1''), None)
                                     [(Some (origin ''Deployed'' ''E2''), None)]))
           example_flex 1 no_tags create_request empty_response []) =
       Inr \<lparr>Diagnostics = [],
            State = Some (example_plan
              \<lparr>m_ARN := Known ''arn:aws:cloudfront::1:vpcorigin/vo_1'',
               m_CreatedTime := Known 100, m_Id := Known ''vo_1'',
               m_LastModifiedTime := Known 200, m_Status := Known ''Deploying'',
               m_ETag := Known ''E1''\<rparr>)\<rparr>
   \<and> StringToFramework (Some ''Deployed'') \<noteq> Known ''Deploying''
   \<and> StringToFramework (Some ''E2'') \<noteq> Known ''E1''"
  by code_simp

subsection \<open>The identity a create-wait probes\<close>

text \<open>
  Claim C3, at a run where the claim and the code part. The plan of a Create has no
  identity yet; the remote system creates the origin \<^verbatim>\<open>vo_1\<close> and answers every read of
  \<^verbatim>\<open>vo_1\<close> with status \<^verbatim>\<open>Deployed\<close>. The wait of Create reads the identity of the plan, the
  empty string, not the \<^verbatim>\<open>vo_1\<close> the create call returned: the read finds nothing and
  Create reports the unexpected disappearance, with no state written.
\<close>

theorem create_wait_probes_planned_id:
  "CreateVpcOrigin remote_vo_1 [] \<lparr>ci_Tags = None, ci_VpcOriginEndpointConfig = None\<rparr> =
     (Some (origin ''Deploying'' ''E1''), None)
   \<and> Create (example_resource remote_vo_1) example_flex 1 no_tags create_request
       empty_response [] =
     (Inr \<lparr>Diagnostics =
             [WaitingError ErrActionWaitingForCreation Unknown UnexpectedDisappearance],
           State = None\<rparr>,
      [CreateVpcOriginCall \<lparr>ci_Tags = None, ci_VpcOriginEndpointConfig = None\<rparr>,
       WaitForStateCall [''Deploying''] [''Deployed''] 3,
       GetVpcOriginCall ''''])"
  by code_simp

text \<open>
  In general the probes of a Create all read the identity of the plan, whatever the
  create call returned (see \<open>Create_log\<close>); those of Update and Delete read the identity of
  the prior state.
\<close>

subsection \<open>Nil outputs\<close>



text \<open>
  Claim C9. When the update call returns a nil output and the wait then succeeds, Update
  reaches the empty-response check with a nil error and panics on \<^verbatim>\<open>err.Error()\<close>: it
  returns no response, hence no diagnostic.
\<close>

theorem Update_nil_output_panics:
  assumes "req_State request = (diags, old)"
      and "\<not> HasError (Diagnostics response @ diags)"
      and "req_Plan request = (diags', new)"
      and "\<not> HasError (Diagnostics response @ diags @ diags')"
      and "Expand_update fw new
             \<lparr>ui_Id = Some (ValueString (m_Id new)),
              ui_IfMatch = Some (ValueString (m_ETag old)),
              ui_VpcOriginEndpointConfig = None\<rparr> = (diags'', input)"
      and "\<not> HasError (Diagnostics response @ diags @ diags' @ diags'')"
      and "UpdateVpcOrigin (CloudFrontClient r) log input = (None, err)"
      and "waitVPCOriginDeployed d (CloudFrontClient r) (ValueString (m_Id old))
             (UpdateTimeout r (m_Timeouts old)) (log @ [UpdateVpcOriginCall input])
             = (Inr (obj, None), log')"
  shows "Update r fw d ctx request response log = (Inl NilPointerDereference, log')"
  using assms by (simp add: Update_def Append_def Let_def Error_text_def)

theorem Update_nil_output_panics_witness:
  "UpdateVpcOrigin (scripted (None, None) [(Some (origin ''Deployed'' ''E2''), None)]) []
     \<lparr>ui_Id = Some ''vo_1'', ui_IfMatch = Some ''E1'', ui_VpcOriginEndpointConfig = None\<rparr> =
     (None, None)
   \<and> waitVPCOriginDeployed 1
       (scripted (None, None) [(Some (origin ''Deployed'' ''E2''), None)]) ''vo_1'' 3
       [UpdateVpcOriginCall
          \<lparr>ui_Id = Some ''vo_1'', ui_IfMatch = Some ''E1'', ui_VpcOriginEndpointConfig = None\<rparr>] =
     (Inr (None, None),
      [UpdateVpcOriginCall
         \<lparr>ui_Id = Some ''vo_1'', ui_IfMatch = Some ''E1'', ui_VpcOriginEndpointConfig = None\<rparr>,
       WaitForStateCall [''Deploying''] [''Deployed''] 3, GetVpcOriginCall ''vo_1''])
   \<and> Update (example_resource (scripted (None, None) [(Some (origin ''Deployed'' ''E2''), None)]))
       example_flex 1 no_tags example_request prior_response [] =
     (Inl NilPointerDereference,
      [UpdateVpcOriginCall
         \<lparr>ui_Id = Some ''vo_1'', ui_IfMatch = Some ''E1'', ui_VpcOriginEndpointConfig = None\<rparr>,
       WaitForStateCall [''Deploying''] [''Deployed''] 3, GetVpcOriginCall ''vo_1''])"
proof -
  let ?c = "scripted (None, None) [(Some (origin ''Deployed'' ''E2''), None)]"
  let ?uin = "\<lparr>ui_Id = Some ''vo_1'', ui_IfMatch = Some ''E1'',
                ui_VpcOriginEndpointConfig = None\<rparr>"
  let ?new = "example_state\<lparr>m_Status := Unknown, m_ETag := Unknown\<rparr>"
  let ?log' = "[UpdateVpcOriginCall ?uin, WaitForStateCall [''Deploying''] [''Deployed''] 3,
                GetVpcOriginCall ''vo_1'']"
  have s: "req_State example_request = ([], example_state)"
    by (simp add: example_request_def)
  have p: "req_Plan example_request = ([], ?new)"
    by (simp add: example_request_def)
  have h1: "\<not> HasError (Diagnostics prior_response @ [])"
    by (simp add: prior_response_def HasError_def)
  have h2: "\<not> HasError (Diagnostics prior_response @ [] @ [])"
    by (simp add: prior_response_def HasError_def)
  have h3: "\<not> HasError (Diagnostics prior_response @ [] @ [] @ [])"
    by (simp add: prior_response_def HasError_def)
  have e: "Expand_update example_flex ?new
      \<lparr>ui_Id = Some (ValueString (m_Id ?new)),
       ui_IfMatch = Some (ValueString (m_ETag example_state)),
       ui_VpcOriginEndpointConfig = None\<rparr> = ([], ?uin)"
    by (simp add: example_flex_def example_state_def ValueString_def)
  have m: "UpdateVpcOrigin (CloudFrontClient (example_resource ?c)) [] ?uin = (None, None)"
    by (simp add: example_resource_def scripted_def)
  have w: "waitVPCOriginDeployed 1 ?c ''vo_1'' 3 [UpdateVpcOriginCall ?uin] = (Inr (None, None), ?log')"
    by code_simp
  have w': "waitVPCOriginDeployed 1 (CloudFrontClient (example_resource ?c))
      (ValueString (m_Id example_state))
      (UpdateTimeout (example_resource ?c) (m_Timeouts example_state))
      ([] @ [UpdateVpcOriginCall ?uin]) = (Inr (None, None), ?log')"
    using w by (simp add: example_resource_def example_state_def example_plan_def ValueString_def)
  show ?thesis
    using Update_nil_output_panics [OF s h1 p h2 e h3 m w'] w m
    by (simp add: example_resource_def)
qed

subsection \<open>Read\<close>



end
